theory Spec2Isabelle
  imports Complex_Main
begin

section \<open>Geometry primitives used by the cluster hierarchy\<close>

text \<open>
  Modelled from the spec: \<^verbatim>\<open>vpsc::Rectangle\<close> and \<^verbatim>\<open>vpsc::Dim\<close> are declared in
  \<^verbatim>\<open>libvpsc/rectangle.h\<close>, which \<^verbatim>\<open>cluster.h\<close> includes but which is not part of the
  sources at hand. The spec describes a rectangle as an axis-aligned box with an
  independent minimum and maximum per axis, and the layout as planar (two axes).
  The coordinate type is left open (\<open>'a\<close>): the statements about the edge rectangles
  hold for whatever subtraction and addition the coordinate type provides, so they do
  not depend on how \<^verbatim>\<open>double\<close> arithmetic rounds.
\<close>

datatype Dim = XDIM | YDIM

record 'a Rectangle =
  minX :: 'a
  maxX :: 'a
  minY :: 'a
  maxY :: 'a

definition getMinD :: "Dim \<Rightarrow> 'a Rectangle \<Rightarrow> 'a" where
  "getMinD d r = (case d of XDIM \<Rightarrow> minX r | YDIM \<Rightarrow> minY r)"

definition getMaxD :: "Dim \<Rightarrow> 'a Rectangle \<Rightarrow> 'a" where
  "getMaxD d r = (case d of XDIM \<Rightarrow> maxX r | YDIM \<Rightarrow> maxY r)"

definition setMinD :: "Dim \<Rightarrow> 'a \<Rightarrow> 'a Rectangle \<Rightarrow> 'a Rectangle" where
  "setMinD d v r = (case d of XDIM \<Rightarrow> r\<lparr>minX := v\<rparr> | YDIM \<Rightarrow> r\<lparr>minY := v\<rparr>)"

definition setMaxD :: "Dim \<Rightarrow> 'a \<Rightarrow> 'a Rectangle \<Rightarrow> 'a Rectangle" where
  "setMaxD d v r = (case d of XDIM \<Rightarrow> r\<lparr>maxX := v\<rparr> | YDIM \<Rightarrow> r\<lparr>maxY := v\<rparr>)"

section \<open>The free store holding the cached edge rectangles\<close>

text \<open>
  \<^verbatim>\<open>minEdgeRect[dim]\<close> and \<^verbatim>\<open>maxEdgeRect[dim]\<close> are owning raw pointers to rectangles
  created with \<^verbatim>\<open>new\<close> and destroyed with \<^verbatim>\<open>delete\<close>. The store is a list of cells
  indexed by address: a cell holds \<open>Some r\<close> while a rectangle lives there and \<open>None\<close>
  once it has been released. \<open>new_Rectangle\<close> takes the lowest free cell, so an address
  that has just been released may be handed out again, as a C++ allocator may do.
\<close>

type_synonym addr = nat

type_synonym 'a store = "'a Rectangle option list"

definition live :: "'a store \<Rightarrow> addr \<Rightarrow> 'a Rectangle option" where
  "live h a = (if a < length h then h ! a else None)"

definition delete_Rectangle :: "addr \<Rightarrow> 'a store \<Rightarrow> 'a store" where
  "delete_Rectangle a h = (if a < length h then h[a := None] else h)"

fun free_cell :: "'a store \<Rightarrow> addr" where
  "free_cell [] = 0"
| "free_cell (None # h) = 0"
| "free_cell (Some r # h) = Suc (free_cell h)"

definition new_Rectangle :: "'a Rectangle \<Rightarrow> 'a store \<Rightarrow> addr \<times> 'a store" where
  "new_Rectangle r h =
     (let a = free_cell h
      in (a, if a < length h then h[a := Some r] else h @ [Some r]))"

text \<open>
  Reading and writing through a pointer. \<open>deref\<close> is only applied to an address that
  holds a rectangle; \<open>through a f\<close> applies the member function \<open>f\<close> to the rectangle
  at \<open>a\<close>.
\<close>

definition deref :: "'a store \<Rightarrow> addr \<Rightarrow> 'a Rectangle" where
  "deref h a = the (live h a)"

definition through :: "addr \<Rightarrow> ('a Rectangle \<Rightarrow> 'a Rectangle) \<Rightarrow> 'a store \<Rightarrow> 'a store" where
  "through a f h = (case live h a of Some r \<Rightarrow> h[a := Some (f r)] | None \<Rightarrow> h)"

section \<open>The cluster classes of \<^verbatim>\<open>cluster.h\<close>\<close>

text \<open>
  \<open>Cluster\<close> carries the geometric data members of the base class (\<^verbatim>\<open>bounds\<close>,
  \<^verbatim>\<open>nodes\<close>, \<^verbatim>\<open>clusters\<close>, \<^verbatim>\<open>hullX\<close>, \<^verbatim>\<open>hullY\<close>); \<open>Derived\<close> carries the members
  each subclass adds. A null pointer in \<^verbatim>\<open>minEdgeRect[2]\<close> or
  \<^verbatim>\<open>maxEdgeRect[2]\<close> is \<open>None\<close>.
\<close>

datatype 'a Derived =
    RootCluster (m_allows_multiple_parents: bool)
  | RectangularCluster
      (minEdgeRect: "Dim \<Rightarrow> addr option")
      (maxEdgeRect: "Dim \<Rightarrow> addr option")
      (m_rectangle_index: int)
      (m_margin: 'a)
      (m_padding: 'a)
  | ConvexCluster (hullRIDs: "nat list") (hullCorners: "nat list")

datatype 'a Cluster =
  Cluster
    (derived: "'a Derived")
    (bounds: "'a Rectangle")
    (nodes: "nat list")
    (clusters: "'a Cluster list")
    (hullX: "'a list")
    (hullY: "'a list")

text \<open>\<^verbatim>\<open>RootCluster::flat\<close>: \<^verbatim>\<open>return clusters.empty();\<close>\<close>

definition flat :: "'a Cluster \<Rightarrow> bool" where
  "flat c = List.null (clusters c)"

text \<open>
  \<^verbatim>\<open>RectangularCluster::getMinEdgeRect\<close>, statement by statement: the rectangle cached
  before, if any, is deleted; a copy of \<^verbatim>\<open>bounds\<close> is allocated and cached;
  \<^verbatim>\<open>edgePosition\<close> is read from the copy; the copy's minimum along the axis is set to
  \<^verbatim>\<open>edgePosition - m_margin\<close> and then its maximum to \<^verbatim>\<open>edgePosition\<close>. The function
  returns the new pointer together with the updated cluster and store.
\<close>

fun getMinEdgeRect ::
  "Dim \<Rightarrow> ('a::minus) Cluster \<Rightarrow> 'a store \<Rightarrow> addr \<times> 'a Cluster \<times> 'a store" where
  "getMinEdgeRect d (Cluster (RectangularCluster mn mx ri m p) b ns cs hx hy) h =
     (let h1 = (case mn d of Some old \<Rightarrow> delete_Rectangle old h | None \<Rightarrow> h);
          (a, h2) = new_Rectangle b h1;
          edgePosition = getMinD d (deref h2 a);
          h3 = through a (setMinD d (edgePosition - m)) h2;
          h4 = through a (setMaxD d edgePosition) h3
      in (a, Cluster (RectangularCluster (mn(d := Some a)) mx ri m p) b ns cs hx hy, h4))"

text \<open>
  \<^verbatim>\<open>RectangularCluster::getMaxEdgeRect\<close>: the same with the maximum edge; here the
  maximum is set first (to \<^verbatim>\<open>edgePosition + m_margin\<close>), then the minimum.
\<close>

fun getMaxEdgeRect ::
  "Dim \<Rightarrow> ('a::plus) Cluster \<Rightarrow> 'a store \<Rightarrow> addr \<times> 'a Cluster \<times> 'a store" where
  "getMaxEdgeRect d (Cluster (RectangularCluster mn mx ri m p) b ns cs hx hy) h =
     (let h1 = (case mx d of Some old \<Rightarrow> delete_Rectangle old h | None \<Rightarrow> h);
          (a, h2) = new_Rectangle b h1;
          edgePosition = getMaxD d (deref h2 a);
          h3 = through a (setMaxD d (edgePosition + m)) h2;
          h4 = through a (setMinD d edgePosition) h3
      in (a, Cluster (RectangularCluster mn (mx(d := Some a)) ri m p) b ns cs hx hy, h4))"

section \<open>Lemmas about the store\<close>

lemma free_cell_le: "free_cell h \<le> length h"
  by (induction h rule: free_cell.induct) auto

lemma free_cell_free: "live h (free_cell h) = None"
  by (induction h rule: free_cell.induct) (auto simp: live_def)

lemma live_new_same:
  "new_Rectangle r h = (a, h') \<Longrightarrow> live h' a = Some r"
  using free_cell_le [of h]
  by (auto simp: new_Rectangle_def live_def Let_def nth_append split: if_splits)

lemma live_new_other:
  "new_Rectangle r h = (a, h') \<Longrightarrow> x \<noteq> a \<Longrightarrow> live h' x = live h x"
  using free_cell_le [of h]
  by (auto simp: new_Rectangle_def live_def Let_def nth_append split: if_splits)

lemma new_was_free:
  "new_Rectangle r h = (a, h') \<Longrightarrow> live h a = None"
  using free_cell_free [of h] by (auto simp: new_Rectangle_def Let_def)

lemma live_through:
  "live (through a f h) x = (if x = a then map_option f (live h a) else live h x)"
  by (auto simp: through_def live_def split: option.splits if_splits)

lemma live_delete_same: "live (delete_Rectangle a h) a = None"
  by (simp add: delete_Rectangle_def live_def)

lemma live_delete_other: "x \<noteq> a \<Longrightarrow> live (delete_Rectangle a h) x = live h x"
  by (simp add: delete_Rectangle_def live_def)

lemma getD_setD [simp]:
  "getMinD d (setMinD d v r) = v"
  "getMaxD d (setMaxD d v r) = v"
  "getMinD d (setMaxD d' v r) = getMinD d r"
  "getMaxD d (setMinD d' v r) = getMaxD d r"
  by (auto simp: getMinD_def getMaxD_def setMinD_def setMaxD_def split: Dim.splits)

lemma getD_setD_other:
  "d \<noteq> d' \<Longrightarrow> getMinD d (setMinD d' v r) = getMinD d r"
  "d \<noteq> d' \<Longrightarrow> getMaxD d (setMaxD d' v r) = getMaxD d r"
  by (auto simp: getMinD_def getMaxD_def setMinD_def setMaxD_def split: Dim.splits)

section \<open>RootCluster::flat\<close>

text \<open>
  Claim C10. For every root cluster, \<open>flat\<close> is true exactly when the list of child
  clusters is empty, and its value does not depend on the shape indices the root holds
  directly: with any list of nodes \<open>ns\<close> and no child cluster the root is flat.
\<close>

theorem flat_iff_no_child_clusters:
  "(flat (Cluster (RootCluster amp) b ns cs hx hy) \<longleftrightarrow> cs = [])
   \<and> flat (Cluster (RootCluster amp) b ns' cs hx hy)
       = flat (Cluster (RootCluster amp) b ns cs hx hy)
   \<and> flat (Cluster (RootCluster amp) b ns [] hx hy)"
proof -
  have reads_clusters_only: "flat (Cluster k b' ms cs' hx' hy') \<longleftrightarrow> cs' = []"
    for k :: "'a Derived" and b' ms cs' hx' hy'
    unfolding flat_def by simp
  show ?thesis
    by (simp only: reads_clusters_only simp_thms)
qed

section \<open>The margin bands of a rectangular cluster\<close>

text \<open>
  Claim C8. For a rectangular cluster with margin \<open>m\<close> and bounds \<open>b\<close>, and either axis
  \<open>d\<close>: \<open>getMinEdgeRect d\<close> returns a pointer to a live rectangle whose extent along \<open>d\<close>
  is from (minimum of \<open>b\<close> along \<open>d\<close>) \<open>- m\<close> to that minimum, and \<open>getMaxEdgeRect d\<close> one
  whose extent along \<open>d\<close> is from the maximum of \<open>b\<close> along \<open>d\<close> to that maximum \<open>+ m\<close>;
  along the other axis both keep the extent of \<open>b\<close>. In each call the rectangle cached
  before for that edge and axis is released (its address is dead afterwards unless the
  allocator reused it for the new rectangle), the cache slot for that edge and axis holds
  the new pointer, the other cache slots keep their pointers, and every other rectangle
  in the store is left as it was.
\<close>

theorem edge_rects_are_margin_bands:
  fixes m :: "'a::{plus,minus}"
  assumes "getMinEdgeRect d (Cluster (RectangularCluster mn mx ri m p) b ns cs hx hy) h = (a, c', h')"
    and "getMaxEdgeRect d (Cluster (RectangularCluster mn mx ri m p) b ns cs hx hy) h = (a2, c2, h2)"
  shows "(\<exists>r. live h' a = Some r
            \<and> getMinD d r = getMinD d b - m \<and> getMaxD d r = getMinD d b
            \<and> (\<forall>e. e \<noteq> d \<longrightarrow> getMinD e r = getMinD e b \<and> getMaxD e r = getMaxD e b))
       \<and> c' = Cluster (RectangularCluster (mn(d := Some a)) mx ri m p) b ns cs hx hy
       \<and> (\<forall>old. mn d = Some old \<and> old \<noteq> a \<longrightarrow> live h' old = None)
       \<and> (\<forall>x. x \<noteq> a \<and> mn d \<noteq> Some x \<longrightarrow> live h' x = live h x)
       \<and> (\<exists>r. live h2 a2 = Some r
            \<and> getMinD d r = getMaxD d b \<and> getMaxD d r = getMaxD d b + m
            \<and> (\<forall>e. e \<noteq> d \<longrightarrow> getMinD e r = getMinD e b \<and> getMaxD e r = getMaxD e b))
       \<and> c2 = Cluster (RectangularCluster mn (mx(d := Some a2)) ri m p) b ns cs hx hy
       \<and> (\<forall>old. mx d = Some old \<and> old \<noteq> a2 \<longrightarrow> live h2 old = None)
       \<and> (\<forall>x. x \<noteq> a2 \<and> mx d \<noteq> Some x \<longrightarrow> live h2 x = live h x)"
proof -
  define h1 where "h1 = (case mn d of Some old \<Rightarrow> delete_Rectangle old h | None \<Rightarrow> h)"
  obtain h0 where new: "new_Rectangle b h1 = (a, h0)"
    and h': "h' = through a (setMaxD d (getMinD d (deref h0 a)))
                   (through a (setMinD d (getMinD d (deref h0 a) - m)) h0)"
    and c': "c' = Cluster (RectangularCluster (mn(d := Some a)) mx ri m p) b ns cs hx hy"
    using assms(1) by (auto simp: h1_def Let_def split: prod.splits)
  have copy: "live h0 a = Some b"
    using new by (rule live_new_same)
  then have edge: "deref h0 a = b"
    by (simp add: deref_def)
  define r where "r = setMaxD d (getMinD d b) (setMinD d (getMinD d b - m) b)"
  have la: "live h' a = Some r"
    by (simp add: h' edge live_through copy r_def)
  have other: "live h' x = live h0 x" if "x \<noteq> a" for x
    using that by (simp add: h' live_through)
  have r_ext: "getMinD d r = getMinD d b - m" "getMaxD d r = getMinD d b"
    "\<forall>e. e \<noteq> d \<longrightarrow> getMinD e r = getMinD e b \<and> getMaxD e r = getMaxD e b"
    by (simp_all add: r_def getD_setD_other)
  have old_dead: "\<forall>old. mn d = Some old \<and> old \<noteq> a \<longrightarrow> live h' old = None"
  proof (intro allI impI)
    fix old assume o: "mn d = Some old \<and> old \<noteq> a"
    then have "live h' old = live h1 old"
      using live_new_other [OF new] other by simp
    also have "\<dots> = None"
      using o by (simp add: h1_def live_delete_same)
    finally show "live h' old = None" .
  qed
  have frame: "\<forall>x. x \<noteq> a \<and> mn d \<noteq> Some x \<longrightarrow> live h' x = live h x"
  proof (intro allI impI)
    fix x assume x: "x \<noteq> a \<and> mn d \<noteq> Some x"
    then have "live h' x = live h1 x"
      using live_new_other [OF new] other by simp
    also have "\<dots> = live h x"
      using x by (cases "mn d") (simp_all add: h1_def live_delete_other)
    finally show "live h' x = live h x" .
  qed
  define k1 where "k1 = (case mx d of Some old \<Rightarrow> delete_Rectangle old h | None \<Rightarrow> h)"
  obtain k0 where new2: "new_Rectangle b k1 = (a2, k0)"
    and h2: "h2 = through a2 (setMinD d (getMaxD d (deref k0 a2)))
                   (through a2 (setMaxD d (getMaxD d (deref k0 a2) + m)) k0)"
    and c2: "c2 = Cluster (RectangularCluster mn (mx(d := Some a2)) ri m p) b ns cs hx hy"
    using assms(2) by (auto simp: k1_def Let_def split: prod.splits)
  have copy2: "live k0 a2 = Some b"
    using new2 by (rule live_new_same)
  then have edge2: "deref k0 a2 = b"
    by (simp add: deref_def)
  define s where "s = setMinD d (getMaxD d b) (setMaxD d (getMaxD d b + m) b)"
  have la2: "live h2 a2 = Some s"
    by (simp add: h2 edge2 live_through copy2 s_def)
  have other2: "live h2 x = live k0 x" if "x \<noteq> a2" for x
    using that by (simp add: h2 live_through)
  have s_ext: "getMinD d s = getMaxD d b" "getMaxD d s = getMaxD d b + m"
    "\<forall>e. e \<noteq> d \<longrightarrow> getMinD e s = getMinD e b \<and> getMaxD e s = getMaxD e b"
    by (simp_all add: s_def getD_setD_other)
  have old_dead2: "\<forall>old. mx d = Some old \<and> old \<noteq> a2 \<longrightarrow> live h2 old = None"
  proof (intro allI impI)
    fix old assume o: "mx d = Some old \<and> old \<noteq> a2"
    then have "live h2 old = live k1 old"
      using live_new_other [OF new2] other2 by simp
    also have "\<dots> = None"
      using o by (simp add: k1_def live_delete_same)
    finally show "live h2 old = None" .
  qed
  have frame2: "\<forall>x. x \<noteq> a2 \<and> mx d \<noteq> Some x \<longrightarrow> live h2 x = live h x"
  proof (intro allI impI)
    fix x assume x: "x \<noteq> a2 \<and> mx d \<noteq> Some x"
    then have "live h2 x = live k1 x"
      using live_new_other [OF new2] other2 by simp
    also have "\<dots> = live h x"
      using x by (cases "mx d") (simp_all add: k1_def live_delete_other)
    finally show "live h2 x = live h x" .
  qed
  show ?thesis
    using la r_ext c' old_dead frame la2 s_ext c2 old_dead2 frame2 by blast
qed

theorem edge_rects_are_margin_bands_witness:
  "getMinEdgeRect XDIM
     (Cluster (RectangularCluster ((\<lambda>_. None)(XDIM := Some 1)) (\<lambda>_. None) (-1) (2::int) 0)
        \<lparr>minX = 0, maxX = 10, minY = 0, maxY = 5\<rparr> [0] [] [] [])
     [None, Some \<lparr>minX = -1, maxX = 0, minY = 0, maxY = 5\<rparr>]
   = (0, Cluster (RectangularCluster ((\<lambda>_. None)(XDIM := Some 0)) (\<lambda>_. None) (-1) 2 0)
        \<lparr>minX = 0, maxX = 10, minY = 0, maxY = 5\<rparr> [0] [] [] [],
      [Some \<lparr>minX = -2, maxX = 0, minY = 0, maxY = 5\<rparr>, None])
   \<and> getMaxEdgeRect XDIM
     (Cluster (RectangularCluster ((\<lambda>_. None)(XDIM := Some 1)) (\<lambda>_. None) (-1) (2::int) 0)
        \<lparr>minX = 0, maxX = 10, minY = 0, maxY = 5\<rparr> [0] [] [] [])
     [None, Some \<lparr>minX = -1, maxX = 0, minY = 0, maxY = 5\<rparr>]
   = (0, Cluster (RectangularCluster ((\<lambda>_. None)(XDIM := Some 1)) ((\<lambda>_. None)(XDIM := Some 0)) (-1) 2 0)
        \<lparr>minX = 0, maxX = 10, minY = 0, maxY = 5\<rparr> [0] [] [] [],
      [Some \<lparr>minX = 10, maxX = 12, minY = 0, maxY = 5\<rparr>, Some \<lparr>minX = -1, maxX = 0, minY = 0, maxY = 5\<rparr>])
   \<and> live [Some \<lparr>minX = -2, maxX = 0, minY = 0, maxY = 5\<rparr>, None] 1 = (None :: int Rectangle option)
   \<and> (\<exists>r. live [Some \<lparr>minX = -2, maxX = 0, minY = 0, maxY = 5\<rparr>, None] 0 = Some r
          \<and> getMinD XDIM r = (0::int) - 2 \<and> getMaxD XDIM r = 0)
   \<and> (\<exists>r. live [Some \<lparr>minX = 10, maxX = 12, minY = 0, maxY = 5\<rparr>,
                  Some \<lparr>minX = -1, maxX = 0, minY = 0, maxY = 5\<rparr>] 0 = Some r
          \<and> getMinD XDIM r = (10::int) \<and> getMaxD XDIM r = 10 + 2)"
proof -
  let ?c = "Cluster (RectangularCluster ((\<lambda>_. None)(XDIM := Some 1)) (\<lambda>_. None) (-1) (2::int) 0)
        \<lparr>minX = 0, maxX = 10, minY = 0, maxY = 5\<rparr> [0] [] [] []"
  let ?h = "[None, Some \<lparr>minX = -1, maxX = 0, minY = 0, maxY = (5::int)\<rparr>]"
  have e1: "getMinEdgeRect XDIM ?c ?h
     = (0, Cluster (RectangularCluster ((\<lambda>_. None)(XDIM := Some 0)) (\<lambda>_. None) (-1) 2 0)
        \<lparr>minX = 0, maxX = 10, minY = 0, maxY = 5\<rparr> [0] [] [] [],
      [Some \<lparr>minX = -2, maxX = 0, minY = 0, maxY = 5\<rparr>, None])"
    by (simp add: new_Rectangle_def delete_Rectangle_def deref_def through_def live_def
        getMinD_def setMinD_def setMaxD_def)
  have e2: "getMaxEdgeRect XDIM ?c ?h
     = (0, Cluster (RectangularCluster ((\<lambda>_. None)(XDIM := Some 1)) ((\<lambda>_. None)(XDIM := Some 0)) (-1) 2 0)
        \<lparr>minX = 0, maxX = 10, minY = 0, maxY = 5\<rparr> [0] [] [] [],
      [Some \<lparr>minX = 10, maxX = 12, minY = 0, maxY = 5\<rparr>, Some \<lparr>minX = -1, maxX = 0, minY = 0, maxY = 5\<rparr>])"
    by (simp add: new_Rectangle_def delete_Rectangle_def deref_def through_def live_def
        getMaxD_def setMinD_def setMaxD_def)
  from edge_rects_are_margin_bands [OF e1 e2] e1 e2 show ?thesis
    by (auto simp add: getMinD_def getMaxD_def)
qed

end
